theory Spec2Isabelle
  imports Main "HOL-Library.Word"
begin

unbundle bit_operations_syntax

section \<open>Build target and memory\<close>

text \<open>
  The two headers select their code with the preprocessor, so every function below takes
  the build target as its first argument. \<open>arch\<close> lists the targets the conditionals of
  \<^verbatim>\<open>safeAccess.h\<close> tell apart (\<^verbatim>\<open>__x86_64__\<close>, \<^verbatim>\<open>__i386__\<close>,
  \<^verbatim>\<open>__arm__ || __thumb__\<close>, \<^verbatim>\<open>__aarch64__\<close>, \<^verbatim>\<open>__PPC64__\<close>) and one more
  constructor for any other target. The byte order is \<^verbatim>\<open>__BYTE_ORDER__\<close>.

  \<^verbatim>\<open>arch.h\<close> is not among the sources. Of what it declares the code uses the integer types
  \<^verbatim>\<open>u8\<close>, \<^verbatim>\<open>u16\<close>, \<^verbatim>\<open>u32\<close> (8, 16 and 32 bits wide) and \<^verbatim>\<open>instruction_t\<close>.
  \<^verbatim>\<open>instruction_t\<close> is an unsigned integer type whose size, \<^verbatim>\<open>sizeof(instruction_t)\<close>,
  is a field of the target. On arm and aarch64 the code masks an \<^verbatim>\<open>instruction_t\<close> with
  the constants \<^verbatim>\<open>0x0e50f000\<close> and \<^verbatim>\<open>0xffc0001f\<close>, which fit in 32 bits, so the
  comparison is one of 32-bit values.
\<close>

datatype arch = X86_64 | I386 | ARM | AARCH64 | PPC64 | OtherArch

datatype byte_order = LittleEndian | BigEndian

record target =
  arch :: arch
  byte_order :: byte_order
  sizeof_instruction_t :: nat

text \<open>
  \<^verbatim>\<open>uintptr_t\<close> and pointers are words of the target's pointer width \<open>'a\<close> (32 or 64 on
  the targets above); subtraction wraps. Memory maps an address to the byte stored there,
  or to \<open>None\<close> where the address is not readable. A read that touches an unreadable
  byte raises a fault at the first such byte; what the fault handler then does is not part
  of these headers.
\<close>

type_synonym byte = "8 word"

type_synonym 'a memory = "'a word \<Rightarrow> byte option"

datatype 'addr fault = Fault 'addr

text \<open>A memory access: the address and the number of bytes read.\<close>

type_synonym 'a access = "'a word \<times> nat"

text \<open>What a function did: the reads it performed, in order, and its result.\<close>

type_synonym ('a, 'r) run = "'a access list \<times> ('a word fault + 'r)"

text \<open>The \<open>n\<close> bytes from address \<open>a\<close> on, or the address of the first unreadable one.\<close>

primrec read_bytes :: "'a::len memory \<Rightarrow> 'a word \<Rightarrow> nat \<Rightarrow> 'a word + byte list" where
  "read_bytes m a 0 = Inr []"
| "read_bytes m a (Suc n) =
     (case m a of
        None \<Rightarrow> Inl a
      | Some b \<Rightarrow> (case read_bytes m (a + 1) n of Inl f \<Rightarrow> Inl f | Inr bs \<Rightarrow> Inr (b # bs)))"

text \<open>The value of a byte sequence in the given byte order.\<close>

definition from_bytes :: "byte_order \<Rightarrow> byte list \<Rightarrow> 'b::len word" where
  "from_bytes bo bs = word_rcat (case bo of BigEndian \<Rightarrow> bs | LittleEndian \<Rightarrow> rev bs)"

text \<open>\<^verbatim>\<open>*(T*)a\<close> for an integer or pointer type \<open>T\<close> of \<open>n\<close> bytes.\<close>

definition deref :: "target \<Rightarrow> 'a::len memory \<Rightarrow> 'a word \<Rightarrow> nat \<Rightarrow> ('a, 'b::len word) run" where
  "deref t m a n =
     ([(a, n)],
      case read_bytes m a n of
        Inl f \<Rightarrow> Inl (Fault f)
      | Inr bs \<Rightarrow> Inr (from_bytes (byte_order t) bs))"

text \<open>Memory holds the bytes \<open>bs\<close> at the addresses \<open>a\<close>, \<open>a + 1\<close>, ..., all of them readable.\<close>

definition holds_bytes :: "'a::len memory \<Rightarrow> 'a word \<Rightarrow> byte list \<Rightarrow> bool" where
  "holds_bytes m a bs = (\<forall>i<length bs. m (a + of_nat i) = Some (bs ! i))"

text \<open>\<^verbatim>\<open>sizeof(void*)\<close>, from the pointer width.\<close>

definition sizeof_ptr :: "'a::len word \<Rightarrow> nat" where
  "sizeof_ptr a = LENGTH('a) div 8"

section \<open>safeAccess.h\<close>

subsection \<open>The probe functions\<close>

definition load :: "target \<Rightarrow> 'a::len memory \<Rightarrow> 'a word \<Rightarrow> ('a, 'a word) run" where
  "load t m ptr = deref t m ptr (sizeof_ptr ptr)"

definition load32 :: "target \<Rightarrow> 'a::len memory \<Rightarrow> 'a word \<Rightarrow> 32 word \<Rightarrow> ('a, 32 word) run" where
  "load32 t m ptr default_value = deref t m ptr 4"

definition loadPtr :: "target \<Rightarrow> 'a::len memory \<Rightarrow> 'a word \<Rightarrow> 'a word \<Rightarrow> ('a, 'a word) run" where
  "loadPtr t m ptr default_value = deref t m ptr (sizeof_ptr ptr)"

text \<open>
  The addresses of the three functions, \<^verbatim>\<open>(uintptr_t)load\<close>, \<^verbatim>\<open>(uintptr_t)load32\<close> and
  \<^verbatim>\<open>(uintptr_t)loadPtr\<close>, are fixed by the linker. Each function is declared
  \<^verbatim>\<open>__attribute__((aligned(16)))\<close>, and they are three different functions that are
  neither inlined nor merged.
\<close>

record 'addr probes =
  load_entry :: 'addr
  load32_entry :: 'addr
  loadPtr_entry :: 'addr

definition aligned16 :: "'a::len word \<Rightarrow> bool" where
  "aligned16 a = (unat a mod 16 = 0)"

definition probes_ok :: "'a::len word probes \<Rightarrow> bool" where
  "probes_ok p =
     (aligned16 (load_entry p) \<and> aligned16 (load32_entry p) \<and> aligned16 (loadPtr_entry p)
      \<and> load_entry p \<noteq> load32_entry p \<and> load_entry p \<noteq> loadPtr_entry p
      \<and> load32_entry p \<noteq> loadPtr_entry p)"

subsection \<open>skipLoad, skipLoadArg\<close>

text \<open>The window test of the source, \<^verbatim>\<open>(pc - (uintptr_t)f) < 16\<close>, in unsigned arithmetic.\<close>

definition in_window :: "'a::len word \<Rightarrow> 'a word \<Rightarrow> bool" where
  "in_window entry pc = (pc - entry < 16)"

text \<open>The 16 bytes that start at an entry address, as a set of addresses without wrap-around.\<close>

definition within16 :: "'a::len word \<Rightarrow> 'a word \<Rightarrow> bool" where
  "within16 entry pc = (unat entry \<le> unat pc \<and> unat pc < unat entry + 16)"

text \<open>A function's result computed from the value that a read returned.\<close>

definition map_result :: "('r \<Rightarrow> 's) \<Rightarrow> ('a, 'r) run \<Rightarrow> ('a, 's) run" where
  "map_result f r = (fst r, case snd r of Inl e \<Rightarrow> Inl e | Inr v \<Rightarrow> Inr (f v))"

definition skipLoad :: "target \<Rightarrow> 'a::len word probes \<Rightarrow> 'a memory \<Rightarrow> 'a word \<Rightarrow> ('a, 'a word) run" where
  "skipLoad t p m pc =
     (if in_window (load_entry p) pc then
        (case arch t of
           X86_64 \<Rightarrow>
             map_result (\<lambda>v :: 16 word. if v = 0x8b48 then 3 else 0) (deref t m pc 2)
         | I386 \<Rightarrow>
             map_result (\<lambda>v :: 8 word. if v = 0x8b then 2 else 0) (deref t m pc 1)
         | ARM \<Rightarrow>
             map_result (\<lambda>v :: 32 word. if v AND 0x0e50f000 = 0x04100000 then 4 else 0)
               (deref t m pc (sizeof_instruction_t t))
         | AARCH64 \<Rightarrow>
             map_result (\<lambda>v :: 32 word. if v AND 0xffc0001f = 0xf9400000 then 4 else 0)
               (deref t m pc (sizeof_instruction_t t))
         | _ \<Rightarrow> ([], Inr (of_nat (sizeof_instruction_t t))))
      else ([], Inr 0))"

definition skipLoadArg :: "target \<Rightarrow> 'a::len word probes \<Rightarrow> 'a word \<Rightarrow> 'a word" where
  "skipLoadArg t p pc =
     (if arch t = AARCH64 then
        (if in_window (load32_entry p) pc \<or> in_window (loadPtr_entry p) pc then 4 else 0)
      else 0)"

subsection \<open>lastJavaPCFromStack\<close>

text \<open>\<^verbatim>\<open>((const void**)lastJavaSP)[-1]\<close> reads the pointer stored just below \<open>lastJavaSP\<close>.\<close>

definition slot_below :: "'a::len word \<Rightarrow> 'a word" where
  "slot_below sp = sp - of_nat (sizeof_ptr sp)"

definition lastJavaPCFromStack ::
  "target \<Rightarrow> 'a::len memory \<Rightarrow> 'a word \<Rightarrow> 'a word \<Rightarrow> ('a, 'a word) run" where
  "lastJavaPCFromStack t m lastJavaSP topSP =
     (if arch t = AARCH64 then
        deref t m (slot_below lastJavaSP) (sizeof_ptr lastJavaSP)
      else if arch t = PPC64 \<and> byte_order t = LittleEndian then
        ([], Inr 0)
      else if lastJavaSP < topSP then
        deref t m (slot_below lastJavaSP) (sizeof_ptr lastJavaSP)
      else ([], Inr 0))"

section \<open>os.h\<close>

datatype ThreadState = THREAD_UNKNOWN | THREAD_RUNNING | THREAD_SLEEPING

text \<open>
  The data members \<^verbatim>\<open>_index\<close> and \<^verbatim>\<open>_count\<close> of \<^verbatim>\<open>ThreadList\<close>. \<^verbatim>\<open>next()\<close> and
  \<^verbatim>\<open>update()\<close> are pure virtual: the header gives them no body.
\<close>

record ThreadList =
  m_index :: "32 word"
  m_count :: "32 word"

text \<open>The constructor \<^verbatim>\<open>ThreadList() : _index(0), _count(0)\<close>.\<close>

definition ThreadList_new :: ThreadList where
  "ThreadList_new = \<lparr>m_index = 0, m_count = 0\<rparr>"

definition index :: "ThreadList \<Rightarrow> 32 word" where
  "index self = m_index self"

definition count :: "ThreadList \<Rightarrow> 32 word" where
  "count self = m_count self"

definition hasNext :: "ThreadList \<Rightarrow> bool" where
  "hasNext self = (m_index self < m_count self)"

section \<open>Concrete targets and code layouts\<close>

text \<open>Memory \<open>m\<close> with the bytes \<open>bs\<close> stored from address \<open>a\<close> on.\<close>

primrec place :: "'a::len word \<Rightarrow> byte list \<Rightarrow> 'a memory \<Rightarrow> 'a memory" where
  "place a [] m = m"
| "place a (b # bs) m = (place (a + 1) bs m)(a \<mapsto> b)"

definition x86_64_linux :: target where
  "x86_64_linux = \<lparr>arch = X86_64, byte_order = LittleEndian, sizeof_instruction_t = 1\<rparr>"

definition i386_linux :: target where
  "i386_linux = \<lparr>arch = I386, byte_order = LittleEndian, sizeof_instruction_t = 1\<rparr>"

definition arm_linux :: target where
  "arm_linux = \<lparr>arch = ARM, byte_order = LittleEndian, sizeof_instruction_t = 4\<rparr>"

definition aarch64_linux :: target where
  "aarch64_linux = \<lparr>arch = AARCH64, byte_order = LittleEndian, sizeof_instruction_t = 4\<rparr>"

definition ppc64le_linux :: target where
  "ppc64le_linux = \<lparr>arch = PPC64, byte_order = LittleEndian, sizeof_instruction_t = 4\<rparr>"

definition layout64 :: "64 word probes" where
  "layout64 = \<lparr>load_entry = 0x401000, load32_entry = 0x401010, loadPtr_entry = 0x401020\<rparr>"

definition layout32 :: "32 word probes" where
  "layout32 = \<lparr>load_entry = 0x8049000, load32_entry = 0x8049010, loadPtr_entry = 0x8049020\<rparr>"

text \<open>
  x86_64: \<^verbatim>\<open>mov rax, [rdi]; ret\<close> in \<^verbatim>\<open>load\<close> and \<^verbatim>\<open>loadPtr\<close>,
  \<^verbatim>\<open>mov eax, [rdi]; ret\<close> in \<^verbatim>\<open>load32\<close>.
\<close>

definition text_x86_64 :: "64 memory" where
  "text_x86_64 =
     place 0x401000 [0x48, 0x8b, 0x07, 0xc3]
       (place 0x401010 [0x8b, 0x07, 0xc3]
          (place 0x401020 [0x48, 0x8b, 0x07, 0xc3] Map.empty))"

text \<open>i386: \<^verbatim>\<open>mov eax, [eax]; ret\<close>.\<close>

definition text_i386 :: "32 memory" where
  "text_i386 = place 0x8049000 [0x8b, 0x00, 0xc3] Map.empty"

text \<open>arm: \<^verbatim>\<open>ldr r0, [r0]; bx lr\<close>, little-endian.\<close>

definition text_arm :: "32 memory" where
  "text_arm = place 0x8049000 [0x00, 0x00, 0x90, 0xe5, 0x1e, 0xff, 0x2f, 0xe1] Map.empty"

text \<open>aarch64: \<^verbatim>\<open>ldr x0, [x0]; ret\<close>, little-endian.\<close>

definition text_aarch64 :: "64 memory" where
  "text_aarch64 = place 0x401000 [0x00, 0x00, 0x40, 0xf9, 0xc0, 0x03, 0x5f, 0xd6] Map.empty"

text \<open>ppc64le: \<^verbatim>\<open>ld r3, 0(r3); blr\<close>, little-endian.\<close>

definition text_ppc64le :: "64 memory" where
  "text_ppc64le = place 0x401000 [0x00, 0x00, 0x63, 0xe8, 0x20, 0x00, 0x80, 0x4e] Map.empty"

text \<open>A stack of two pointer-sized slots below \<^verbatim>\<open>0x7ffd0010\<close>, for a 32-bit target.\<close>

definition stack32 :: "32 memory" where
  "stack32 = place 0x7ffd0008 [0x78, 0x56, 0x34, 0x12, 0xef, 0xbe, 0xad, 0xde] Map.empty"

section \<open>Reading memory\<close>

lemma read_bytes_numeral:
  "read_bytes m a (numeral k) =
     (case m a of
        None \<Rightarrow> Inl a
      | Some b \<Rightarrow>
          (case read_bytes m (a + 1) (pred_numeral k) of
             Inl f \<Rightarrow> Inl f
           | Inr bs \<Rightarrow> Inr (b # bs)))"
  by (simp add: numeral_eq_Suc)

lemma read_bytes_one:
  "read_bytes m a (Suc 0) = (case m a of None \<Rightarrow> Inl a | Some b \<Rightarrow> Inr [b])"
  by (simp split: option.splits)

lemma holds_bytes_Nil [simp]: "holds_bytes m a []"
  by (simp add: holds_bytes_def)

lemma holds_bytes_Cons [simp]:
  "holds_bytes m a (b # bs) = (m a = Some b \<and> holds_bytes m (a + 1) bs)"
proof -
  have "holds_bytes m a (b # bs) =
          (\<forall>i<Suc (length bs). m (a + of_nat i) = Some ((b # bs) ! i))"
    by (simp add: holds_bytes_def)
  also have "\<dots> = (m (a + of_nat 0) = Some ((b # bs) ! 0)
                    \<and> (\<forall>i<length bs. m (a + of_nat (Suc i)) = Some ((b # bs) ! Suc i)))"
    by (rule All_less_Suc2)
  also have "\<dots> = (m a = Some b \<and> holds_bytes m (a + 1) bs)"
    by (simp add: holds_bytes_def add.assoc add.commute [of 1])
  finally show ?thesis .
qed

lemma read_bytes_holds:
  "holds_bytes m a bs \<Longrightarrow> read_bytes m a (length bs) = Inr bs"
  by (induction bs arbitrary: a) simp_all

lemma deref_crossing_fault:
  "deref i386_linux stack32 0x7ffd000e 4
     = ([(0x7ffd000e, 4)], (Inl (Fault 0x7ffd0010) :: 32 word fault + 32 word))"
  by (simp add: deref_def stack32_def read_bytes_numeral read_bytes_one)

lemma deref_holds:
  "holds_bytes m a bs \<Longrightarrow> length bs = n \<Longrightarrow>
   deref t m a n = ([(a, n)], Inr (from_bytes (byte_order t) bs))"
  using read_bytes_holds [of m a bs] by (simp add: deref_def)

section \<open>The window test\<close>

text \<open>
  \<open>16\<close> is a \<^verbatim>\<open>uintptr_t\<close> constant: it needs a pointer of at least five bits, which
  every target has.
\<close>

lemma sixteen_fits: "5 \<le> LENGTH('a::len) \<Longrightarrow> (16::nat) < 2 ^ LENGTH('a)"
proof -
  assume w: "5 \<le> LENGTH('a)"
  have "(2::nat) ^ 5 \<le> 2 ^ LENGTH('a)"
    using w by (intro power_increasing) simp_all
  then show ?thesis by simp
qed

lemma less_sixteen:
  "5 \<le> LENGTH('a::len) \<Longrightarrow> (x < (16 :: 'a word)) = (unat x < 16)"
  by (simp add: word_less_nat_alt take_bit_nat_eq_self sixteen_fits)

lemma less_sixteenD: "x < (16 :: 'a::len word) \<Longrightarrow> unat x < 16"
proof -
  assume "x < 16"
  then have "unat x < take_bit LENGTH('a) (16::nat)"
    by (simp add: word_less_nat_alt)
  also have "\<dots> \<le> 16" by (rule take_bit_nat_less_eq_self)
  finally show ?thesis .
qed

lemma aligned16_top:
  assumes al: "aligned16 (e :: 'a::len word)" and w: "5 \<le> LENGTH('a)"
  shows "unat e + 16 \<le> 2 ^ LENGTH('a)"
proof -
  obtain k where k: "LENGTH('a) = 5 + k"
    using w by (auto simp: le_iff_add)
  have d: "(16::nat) dvd 2 ^ LENGTH('a)"
    by (simp add: k power_add)
  have "16 dvd unat e"
    using al by (simp add: aligned16_def dvd_eq_mod_eq_0)
  moreover have "unat e < 2 ^ LENGTH('a)" by simp
  ultimately show ?thesis using d
    by (elim dvdE) auto
qed

lemma aligned16_narrow:
  assumes al: "aligned16 (e :: 'a::len word)" and w: "\<not> 5 \<le> LENGTH('a)"
  shows "e = 0"
proof -
  have "LENGTH('a) \<le> 4" using w by simp
  then have p: "(2::nat) ^ LENGTH('a) \<le> 2 ^ 4"
    by (intro power_increasing) simp_all
  have "unat e < 2 ^ LENGTH('a)" by (rule unsigned_less)
  also note p
  finally have "unat e < 16" by simp
  then have "unat e = 0" using al by (simp add: aligned16_def)
  then show ?thesis by (simp add: unat_0_iff)
qed

lemma below_entry_outside:
  assumes al: "aligned16 (e :: 'a::len word)" and lt: "pc < e"
  shows "\<not> in_window e pc"
proof (cases "5 \<le> LENGTH('a)")
  case True
  have l: "unat pc < unat e" using lt by (simp add: word_less_nat_alt)
  have "unat (pc - e) = unat pc + 2 ^ LENGTH('a) - unat e"
    using l by (simp add: unat_sub_if')
  moreover have "unat e + 16 \<le> 2 ^ LENGTH('a)"
    using al True by (rule aligned16_top)
  ultimately have "16 \<le> unat (pc - e)" by simp
  then show ?thesis
    by (simp add: in_window_def less_sixteen [OF True])
next
  case False
  with al have "e = 0" by (rule aligned16_narrow)
  with lt show ?thesis by simp
qed

lemma in_window_within16:
  assumes al: "aligned16 (e :: 'a::len word)" and w: "5 \<le> LENGTH('a)"
  shows "in_window e pc = within16 e pc"
proof (cases "pc < e")
  case True
  then have "\<not> within16 e pc" by (simp add: within16_def word_less_nat_alt)
  with below_entry_outside [OF al True] show ?thesis by simp
next
  case False
  then have "unat e \<le> unat pc" by (simp add: word_less_nat_alt)
  then show ?thesis
    by (simp add: in_window_def within16_def less_sixteen [OF w] unat_sub_if') arith
qed

lemma outside_within16:
  assumes al: "aligned16 (e :: 'a::len word)" and out: "\<not> within16 e pc"
  shows "\<not> in_window e pc"
proof (cases "pc < e")
  case True
  with al show ?thesis by (rule below_entry_outside)
next
  case False
  then have le: "unat e \<le> unat pc" by (simp add: word_less_nat_alt)
  with out have "16 \<le> unat pc - unat e" by (simp add: within16_def)
  then have "16 \<le> unat (pc - e)" using le by (simp add: unat_sub_if')
  then show ?thesis
    using less_sixteenD [of "pc - e"] by (auto simp: in_window_def)
qed

lemma in_window_entry:
  "5 \<le> LENGTH('a::len) \<Longrightarrow> in_window (e :: 'a word) e"
  unfolding in_window_def by (simp only: less_sixteen) simp

lemma other_entry_outside:
  assumes a1: "aligned16 (e :: 'a::len word)" and a2: "aligned16 e'" and ne: "e \<noteq> e'"
  shows "\<not> in_window e e'"
proof (rule outside_within16 [OF a1])
  have "unat e \<noteq> unat e'" using ne by (simp add: word_unat_eq_iff)
  moreover have "unat e mod 16 = 0" "unat e' mod 16 = 0"
    using a1 a2 by (simp_all add: aligned16_def)
  ultimately show "\<not> within16 e e'"
    by (simp add: within16_def) presburger
qed

section \<open>The probe functions on readable memory\<close>

text \<open>
  C4. When memory holds readable bytes at address \<open>a\<close>, each probe function performs
  exactly one read, at \<open>a\<close> and of its own width, and returns the value of those bytes:
  \<^verbatim>\<open>load\<close> and \<^verbatim>\<open>loadPtr\<close> a pointer, \<^verbatim>\<open>load32\<close> a 32-bit value. The result of
  the two-argument functions is the same for every \<^verbatim>\<open>default_value\<close>.
\<close>

theorem probes_return_stored_value:
  "(holds_bytes m a bs \<and> length bs = sizeof_ptr a \<longrightarrow>
      load t m a = ([(a, sizeof_ptr a)], Inr (from_bytes (byte_order t) bs))
      \<and> loadPtr t m a default_ptr = ([(a, sizeof_ptr a)], Inr (from_bytes (byte_order t) bs)))
   \<and> (holds_bytes m a bs \<and> length bs = 4 \<longrightarrow>
      load32 t m a default_value = ([(a, 4)], Inr (from_bytes (byte_order t) bs)))"
  by (simp add: load_def loadPtr_def load32_def deref_holds)

theorem probes_return_stored_value_witness:
  "holds_bytes stack32 0x7ffd0008 [0x78, 0x56, 0x34, 0x12]
   \<and> load i386_linux stack32 0x7ffd0008 = ([(0x7ffd0008, 4)], Inr 0x12345678)
   \<and> loadPtr i386_linux stack32 0x7ffd0008 0 = ([(0x7ffd0008, 4)], Inr 0x12345678)
   \<and> loadPtr i386_linux stack32 0x7ffd0008 0xffffffff = ([(0x7ffd0008, 4)], Inr 0x12345678)
   \<and> load32 i386_linux stack32 0x7ffd0008 0 = ([(0x7ffd0008, 4)], Inr 0x12345678)
   \<and> load32 i386_linux stack32 0x7ffd0008 7 = ([(0x7ffd0008, 4)], Inr 0x12345678)"
proof -
  let ?bs = "[0x78, 0x56, 0x34, 0x12] :: byte list"
  have h: "holds_bytes stack32 0x7ffd0008 ?bs"
    by (simp add: stack32_def)
  have n: "length ?bs = sizeof_ptr (0x7ffd0008 :: 32 word)" and n4: "length ?bs = 4"
    by (simp_all add: sizeof_ptr_def)
  have v: "from_bytes (byte_order i386_linux) ?bs = (0x12345678 :: 32 word)"
    by (simp add: i386_linux_def from_bytes_def word_rcat_def)
  have s: "sizeof_ptr (0x7ffd0008 :: 32 word) = 4"
    by (simp add: sizeof_ptr_def)
  note r = probes_return_stored_value [of stack32 "0x7ffd0008" ?bs i386_linux]
  have "load i386_linux stack32 0x7ffd0008
          = ([(0x7ffd0008, sizeof_ptr (0x7ffd0008 :: 32 word))],
             Inr (from_bytes (byte_order i386_linux) ?bs))"
    and "loadPtr i386_linux stack32 0x7ffd0008 0
          = ([(0x7ffd0008, sizeof_ptr (0x7ffd0008 :: 32 word))],
             Inr (from_bytes (byte_order i386_linux) ?bs))"
    and "loadPtr i386_linux stack32 0x7ffd0008 0xffffffff
          = ([(0x7ffd0008, sizeof_ptr (0x7ffd0008 :: 32 word))],
             Inr (from_bytes (byte_order i386_linux) ?bs))"
    and "load32 i386_linux stack32 0x7ffd0008 0
          = ([(0x7ffd0008, 4)], Inr (from_bytes (byte_order i386_linux) ?bs))"
    and "load32 i386_linux stack32 0x7ffd0008 7
          = ([(0x7ffd0008, 4)], Inr (from_bytes (byte_order i386_linux) ?bs))"
    using r [of 0 0] r [of "0xffffffff" 7] h n n4 by blast+
  with h show ?thesis by (simp only: v s)
qed

section \<open>skipLoad inside the window of load\<close>

lemma skipLoad_in_window:
  "in_window (load_entry p) pc \<Longrightarrow>
   skipLoad t p m pc =
     (case arch t of
        X86_64 \<Rightarrow> map_result (\<lambda>v :: 16 word. if v = 0x8b48 then 3 else 0) (deref t m pc 2)
      | I386 \<Rightarrow> map_result (\<lambda>v :: 8 word. if v = 0x8b then 2 else 0) (deref t m pc 1)
      | ARM \<Rightarrow>
          map_result (\<lambda>v :: 32 word. if v AND 0x0e50f000 = 0x04100000 then 4 else 0)
            (deref t m pc (sizeof_instruction_t t))
      | AARCH64 \<Rightarrow>
          map_result (\<lambda>v :: 32 word. if v AND 0xffc0001f = 0xf9400000 then 4 else 0)
            (deref t m pc (sizeof_instruction_t t))
      | _ \<Rightarrow> ([], Inr (of_nat (sizeof_instruction_t t))))"
  by (simp add: skipLoad_def)

lemma map_result_deref:
  "holds_bytes m a bs \<Longrightarrow> length bs = n \<Longrightarrow>
   map_result f (deref t m a n) = ([(a, n)], Inr (f (from_bytes (byte_order t) bs)))"
  by (simp add: deref_holds map_result_def)

lemma numeral_word_nonzero:
  assumes "(numeral k :: nat) < 2 ^ LENGTH('a::len)"
  shows "(numeral k :: 'a word) \<noteq> 0"
proof
  assume "(numeral k :: 'a word) = 0"
  then have "unat (numeral k :: 'a word) = 0"
    by (simp only: unat_0_iff)
  then have "(numeral k :: nat) mod 2 ^ LENGTH('a) = 0"
    by (simp only: unat_numeral)
  with assms show False by simp
qed

lemma skipLoad_at_other_entries:
  assumes "probes_ok p"
  shows "skipLoad t p m (load32_entry p) = ([], Inr 0)"
    and "skipLoad t p m (loadPtr_entry p) = ([], Inr 0)"
  using assms other_entry_outside [of "load_entry p" "load32_entry p"]
    other_entry_outside [of "load_entry p" "loadPtr_entry p"]
  by (simp_all add: probes_ok_def skipLoad_def)

lemma small_count_nonzero:
  assumes w: "5 \<le> LENGTH('a::len)"
  shows "(2 :: 'a word) \<noteq> 0" and "(3 :: 'a word) \<noteq> 0" and "(4 :: 'a word) \<noteq> 0"
proof -
  note f = sixteen_fits [OF w]
  show "(2 :: 'a word) \<noteq> 0"
    by (rule numeral_word_nonzero) (use f in simp)
  show "(3 :: 'a word) \<noteq> 0"
    by (rule numeral_word_nonzero) (use f in simp)
  show "(4 :: 'a word) \<noteq> 0"
    by (rule numeral_word_nonzero) (use f in simp)
qed

text \<open>
  C1, as the code has it. When \<open>pc\<close> is the entry address of \<^verbatim>\<open>load\<close> and the bytes there
  are the target's load instruction, \<^verbatim>\<open>skipLoad(pc)\<close> returns 3 on x86_64, 2 on i386 and 4
  on arm and aarch64, none of them zero. (The entries of \<^verbatim>\<open>load32\<close> and \<^verbatim>\<open>loadPtr\<close> are
  outside the window that \<^verbatim>\<open>skipLoad\<close> tests.)
\<close>

theorem skipLoad_at_load_entry:
  fixes p :: "'a::len word probes"
  assumes w: "5 \<le> LENGTH('a)" and h: "holds_bytes m (load_entry p) bs"
  shows
    "(arch t = X86_64 \<and> length bs = 2 \<and> (from_bytes (byte_order t) bs :: 16 word) = 0x8b48 \<longrightarrow>
        skipLoad t p m (load_entry p) = ([(load_entry p, 2)], Inr 3) \<and> (3 :: 'a word) \<noteq> 0)
     \<and> (arch t = I386 \<and> length bs = 1 \<and> (from_bytes (byte_order t) bs :: 8 word) = 0x8b \<longrightarrow>
        skipLoad t p m (load_entry p) = ([(load_entry p, 1)], Inr 2) \<and> (2 :: 'a word) \<noteq> 0)
     \<and> (arch t = ARM \<and> length bs = sizeof_instruction_t t
          \<and> (from_bytes (byte_order t) bs :: 32 word) AND 0x0e50f000 = 0x04100000 \<longrightarrow>
        skipLoad t p m (load_entry p) = ([(load_entry p, sizeof_instruction_t t)], Inr 4)
        \<and> (4 :: 'a word) \<noteq> 0)
     \<and> (arch t = AARCH64 \<and> length bs = sizeof_instruction_t t
          \<and> (from_bytes (byte_order t) bs :: 32 word) AND 0xffc0001f = 0xf9400000 \<longrightarrow>
        skipLoad t p m (load_entry p) = ([(load_entry p, sizeof_instruction_t t)], Inr 4)
        \<and> (4 :: 'a word) \<noteq> 0)"
proof -
  have i: "in_window (load_entry p) (load_entry p)"
    using w by (rule in_window_entry)
  note s = skipLoad_in_window [OF i, of t m]
  show ?thesis
    using small_count_nonzero [OF w]
    by (simp add: s map_result_deref [OF h])
qed

theorem skipLoad_at_load_entry_witness:
  "skipLoad x86_64_linux layout64 text_x86_64 (load_entry layout64) = ([(0x401000, 2)], Inr 3)
   \<and> skipLoad i386_linux layout32 text_i386 (load_entry layout32) = ([(0x8049000, 1)], Inr 2)
   \<and> skipLoad arm_linux layout32 text_arm (load_entry layout32) = ([(0x8049000, 4)], Inr 4)
   \<and> skipLoad aarch64_linux layout64 text_aarch64 (load_entry layout64)
       = ([(0x401000, 4)], Inr 4)"
proof -
  have w64: "5 \<le> LENGTH(64)" and w32: "5 \<le> LENGTH(32)" by simp_all
  have h1: "holds_bytes text_x86_64 (load_entry layout64) [0x48, 0x8b]"
    by (simp add: text_x86_64_def layout64_def)
  have m1: "arch x86_64_linux = X86_64 \<and> length [0x48, 0x8b :: byte] = 2
            \<and> (from_bytes (byte_order x86_64_linux) [0x48, 0x8b] :: 16 word) = 0x8b48"
    by (simp add: x86_64_linux_def from_bytes_def word_rcat_def)
  have h2: "holds_bytes text_i386 (load_entry layout32) [0x8b]"
    by (simp add: text_i386_def layout32_def)
  have m2: "arch i386_linux = I386 \<and> length [0x8b :: byte] = 1
            \<and> (from_bytes (byte_order i386_linux) [0x8b] :: 8 word) = 0x8b"
    by (simp add: i386_linux_def from_bytes_def word_rcat_def)
  have h3: "holds_bytes text_arm (load_entry layout32) [0x00, 0x00, 0x90, 0xe5]"
    by (simp add: text_arm_def layout32_def)
  have m3: "arch arm_linux = ARM \<and> length [0x00, 0x00, 0x90, 0xe5 :: byte] = sizeof_instruction_t arm_linux
            \<and> (from_bytes (byte_order arm_linux) [0x00, 0x00, 0x90, 0xe5] :: 32 word)
                  AND 0x0e50f000 = 0x04100000"
    by (simp add: arm_linux_def from_bytes_def word_rcat_def)
  have h4: "holds_bytes text_aarch64 (load_entry layout64) [0x00, 0x00, 0x40, 0xf9]"
    by (simp add: text_aarch64_def layout64_def)
  have m4: "arch aarch64_linux = AARCH64 \<and> length [0x00, 0x00, 0x40, 0xf9 :: byte] = sizeof_instruction_t aarch64_linux
            \<and> (from_bytes (byte_order aarch64_linux) [0x00, 0x00, 0x40, 0xf9] :: 32 word)
                  AND 0xffc0001f = 0xf9400000"
    by (simp add: aarch64_linux_def from_bytes_def word_rcat_def)
  have "skipLoad x86_64_linux layout64 text_x86_64 (load_entry layout64)
          = ([(load_entry layout64, 2)], Inr 3)"
    using skipLoad_at_load_entry [OF w64 h1, of x86_64_linux] m1 by blast
  moreover have "skipLoad i386_linux layout32 text_i386 (load_entry layout32)
          = ([(load_entry layout32, 1)], Inr 2)"
    using skipLoad_at_load_entry [OF w32 h2, of i386_linux] m2 by blast
  moreover have "skipLoad arm_linux layout32 text_arm (load_entry layout32)
          = ([(load_entry layout32, sizeof_instruction_t arm_linux)], Inr 4)"
    using skipLoad_at_load_entry [OF w32 h3, of arm_linux] m3 by blast
  moreover have "skipLoad aarch64_linux layout64 text_aarch64 (load_entry layout64)
          = ([(load_entry layout64, sizeof_instruction_t aarch64_linux)], Inr 4)"
    using skipLoad_at_load_entry [OF w64 h4, of aarch64_linux] m4 by blast
  moreover have "load_entry layout64 = 0x401000" and "load_entry layout32 = 0x8049000"
    and "sizeof_instruction_t arm_linux = 4" and "sizeof_instruction_t aarch64_linux = 4"
    by (simp_all add: layout64_def layout32_def arm_linux_def aarch64_linux_def)
  ultimately show ?thesis by simp
qed

theorem skipLoad_at_loadPtr_entry_counterexample:
  "arch x86_64_linux = X86_64 \<and> probes_ok layout64
   \<and> holds_bytes text_x86_64 (loadPtr_entry layout64) [0x48, 0x8b]
   \<and> (from_bytes (byte_order x86_64_linux) [0x48, 0x8b] :: 16 word) = 0x8b48
   \<and> skipLoad x86_64_linux layout64 text_x86_64 (loadPtr_entry layout64) = ([], Inr 0)
   \<and> snd (skipLoad x86_64_linux layout64 text_x86_64 (loadPtr_entry layout64)) \<noteq> Inr 3"
proof -
  have "probes_ok layout64"
    by (simp add: probes_ok_def aligned16_def layout64_def)
  moreover have "holds_bytes text_x86_64 (loadPtr_entry layout64) [0x48, 0x8b]"
    by (simp add: text_x86_64_def layout64_def)
  moreover have "(from_bytes (byte_order x86_64_linux) [0x48, 0x8b] :: 16 word) = 0x8b48"
    by (simp add: x86_64_linux_def from_bytes_def word_rcat_def)
  moreover have "skipLoad x86_64_linux layout64 text_x86_64 (loadPtr_entry layout64) = ([], Inr 0)"
    by (simp add: skipLoad_def in_window_def layout64_def)
  ultimately show ?thesis by (simp add: x86_64_linux_def)
qed

text \<open>
  C2, as the code has it. For \<open>pc\<close> among the 16 bytes that start at the entry of
  \<^verbatim>\<open>load\<close>, with readable bytes at \<open>pc\<close> that are not the target's load instruction,
  \<^verbatim>\<open>skipLoad(pc)\<close> returns 0 on x86_64, i386, arm and aarch64. On every other target it
  does not look at the bytes and returns \<^verbatim>\<open>sizeof(instruction_t)\<close>.
\<close>

theorem skipLoad_mismatch:
  fixes p :: "'a::len word probes"
  assumes w: "5 \<le> LENGTH('a)" and al: "aligned16 (load_entry p)"
    and i: "within16 (load_entry p) pc" and h: "holds_bytes m pc bs"
  shows
    "(arch t = X86_64 \<and> length bs = 2 \<and> (from_bytes (byte_order t) bs :: 16 word) \<noteq> 0x8b48 \<longrightarrow>
        skipLoad t p m pc = ([(pc, 2)], Inr 0))
     \<and> (arch t = I386 \<and> length bs = 1 \<and> (from_bytes (byte_order t) bs :: 8 word) \<noteq> 0x8b \<longrightarrow>
        skipLoad t p m pc = ([(pc, 1)], Inr 0))
     \<and> (arch t = ARM \<and> length bs = sizeof_instruction_t t
          \<and> (from_bytes (byte_order t) bs :: 32 word) AND 0x0e50f000 \<noteq> 0x04100000 \<longrightarrow>
        skipLoad t p m pc = ([(pc, sizeof_instruction_t t)], Inr 0))
     \<and> (arch t = AARCH64 \<and> length bs = sizeof_instruction_t t
          \<and> (from_bytes (byte_order t) bs :: 32 word) AND 0xffc0001f \<noteq> 0xf9400000 \<longrightarrow>
        skipLoad t p m pc = ([(pc, sizeof_instruction_t t)], Inr 0))
     \<and> (arch t \<notin> {X86_64, I386, ARM, AARCH64} \<longrightarrow>
        skipLoad t p m pc = ([], Inr (of_nat (sizeof_instruction_t t))))"
proof -
  have "in_window (load_entry p) pc"
    using i by (simp add: in_window_within16 [OF al w])
  note s = skipLoad_in_window [OF this, of t m]
  show ?thesis
    by (cases "arch t") (simp_all add: s map_result_deref [OF h])
qed

theorem skipLoad_mismatch_witness:
  "skipLoad x86_64_linux layout64 text_x86_64 0x401002 = ([(0x401002, 2)], Inr 0)
   \<and> skipLoad i386_linux layout32 text_i386 0x8049001 = ([(0x8049001, 1)], Inr 0)
   \<and> skipLoad arm_linux layout32 text_arm 0x8049004 = ([(0x8049004, 4)], Inr 0)
   \<and> skipLoad aarch64_linux layout64 text_aarch64 0x401004 = ([(0x401004, 4)], Inr 0)
   \<and> skipLoad ppc64le_linux layout64 text_ppc64le 0x401004 = ([], Inr 4)"
proof -
  have w64: "5 \<le> LENGTH(64)" and w32: "5 \<le> LENGTH(32)" by simp_all
  have a64: "aligned16 (load_entry layout64)" and a32: "aligned16 (load_entry layout32)"
    by (simp_all add: aligned16_def layout64_def layout32_def)
  have i1: "within16 (load_entry layout64) 0x401002"
    and i2: "within16 (load_entry layout32) 0x8049001"
    and i3: "within16 (load_entry layout32) 0x8049004"
    and i4: "within16 (load_entry layout64) 0x401004"
    by (simp_all add: within16_def layout64_def layout32_def)
  have h1: "holds_bytes text_x86_64 0x401002 [0x07, 0xc3]"
    by (simp add: text_x86_64_def)
  have m1: "arch x86_64_linux = X86_64 \<and> length [0x07, 0xc3 :: byte] = 2
            \<and> (from_bytes (byte_order x86_64_linux) [0x07, 0xc3] :: 16 word) \<noteq> 0x8b48"
    by (simp add: x86_64_linux_def from_bytes_def word_rcat_def)
  have h2: "holds_bytes text_i386 0x8049001 [0x00]"
    by (simp add: text_i386_def)
  have m2: "arch i386_linux = I386 \<and> length [0x00 :: byte] = 1
            \<and> (from_bytes (byte_order i386_linux) [0x00] :: 8 word) \<noteq> 0x8b"
    by (simp add: i386_linux_def from_bytes_def word_rcat_def)
  have h3: "holds_bytes text_arm 0x8049004 [0x1e, 0xff, 0x2f, 0xe1]"
    by (simp add: text_arm_def)
  have m3: "arch arm_linux = ARM \<and> length [0x1e, 0xff, 0x2f, 0xe1 :: byte] = sizeof_instruction_t arm_linux
            \<and> (from_bytes (byte_order arm_linux) [0x1e, 0xff, 0x2f, 0xe1] :: 32 word)
                  AND 0x0e50f000 \<noteq> 0x04100000"
    by (simp add: arm_linux_def from_bytes_def word_rcat_def)
  have h4: "holds_bytes text_aarch64 0x401004 [0xc0, 0x03, 0x5f, 0xd6]"
    by (simp add: text_aarch64_def)
  have m4: "arch aarch64_linux = AARCH64 \<and> length [0xc0, 0x03, 0x5f, 0xd6 :: byte] = sizeof_instruction_t aarch64_linux
            \<and> (from_bytes (byte_order aarch64_linux) [0xc0, 0x03, 0x5f, 0xd6] :: 32 word)
                  AND 0xffc0001f \<noteq> 0xf9400000"
    by (simp add: aarch64_linux_def from_bytes_def word_rcat_def)
  have h5: "holds_bytes text_ppc64le 0x401004 [0x20, 0x00, 0x80, 0x4e]"
    by (simp add: text_ppc64le_def)
  have m5: "arch ppc64le_linux \<notin> {X86_64, I386, ARM, AARCH64}"
    and s5: "sizeof_instruction_t ppc64le_linux = 4" "sizeof_instruction_t arm_linux = 4"
      "sizeof_instruction_t aarch64_linux = 4"
    by (simp_all add: ppc64le_linux_def arm_linux_def aarch64_linux_def)
  have "skipLoad x86_64_linux layout64 text_x86_64 0x401002 = ([(0x401002, 2)], Inr 0)"
    using skipLoad_mismatch [OF w64 a64 i1 h1, of x86_64_linux] m1 by blast
  moreover have "skipLoad i386_linux layout32 text_i386 0x8049001 = ([(0x8049001, 1)], Inr 0)"
    using skipLoad_mismatch [OF w32 a32 i2 h2, of i386_linux] m2 by blast
  moreover have "skipLoad arm_linux layout32 text_arm 0x8049004
                   = ([(0x8049004, sizeof_instruction_t arm_linux)], Inr 0)"
    using skipLoad_mismatch [OF w32 a32 i3 h3, of arm_linux] m3 by blast
  moreover have "skipLoad aarch64_linux layout64 text_aarch64 0x401004
                   = ([(0x401004, sizeof_instruction_t aarch64_linux)], Inr 0)"
    using skipLoad_mismatch [OF w64 a64 i4 h4, of aarch64_linux] m4 by blast
  moreover have "skipLoad ppc64le_linux layout64 text_ppc64le 0x401004
                   = ([], Inr (of_nat (sizeof_instruction_t ppc64le_linux)))"
    using skipLoad_mismatch [OF w64 a64 i4 h5, of ppc64le_linux] m5 by blast
  ultimately show ?thesis by (simp add: s5)
qed

theorem skipLoad_fallback_counterexample:
  "arch ppc64le_linux \<notin> {X86_64, I386, ARM, AARCH64}
   \<and> within16 (load_entry layout64) 0x401004
   \<and> holds_bytes text_ppc64le 0x401004 [0x20, 0x00, 0x80, 0x4e]
   \<and> skipLoad ppc64le_linux layout64 text_ppc64le 0x401004 = ([], Inr 4)
   \<and> snd (skipLoad ppc64le_linux layout64 text_ppc64le 0x401004) \<noteq> Inr 0"
proof -
  have "within16 (load_entry layout64) 0x401004"
    by (simp add: within16_def layout64_def)
  moreover have "holds_bytes text_ppc64le 0x401004 [0x20, 0x00, 0x80, 0x4e]"
    by (simp add: text_ppc64le_def)
  moreover have "skipLoad ppc64le_linux layout64 text_ppc64le 0x401004 = ([], Inr 4)"
    by (simp add: skipLoad_def in_window_def layout64_def ppc64le_linux_def)
  ultimately show ?thesis by (simp add: ppc64le_linux_def)
qed

section \<open>skipLoad outside the window of load\<close>

text \<open>
  C8. For every \<open>pc\<close> strictly below the entry address of \<^verbatim>\<open>load\<close>, the unsigned
  difference \<open>pc - entry\<close> wraps around to \<open>pc + 2 ^ width - entry\<close>, which is at least 16,
  so \<open>pc\<close> is outside the window and \<^verbatim>\<open>skipLoad(pc)\<close> returns 0 without reading memory.
  The entry address is a multiple of 16, as \<^verbatim>\<open>aligned(16)\<close> makes it.
\<close>

theorem skipLoad_below_entry:
  fixes p :: "'a::len word probes"
  assumes al: "aligned16 (load_entry p)" and lt: "pc < load_entry p"
  shows "unat (pc - load_entry p) = unat pc + 2 ^ LENGTH('a) - unat (load_entry p)
         \<and> \<not> pc - load_entry p < 16
         \<and> skipLoad t p m pc = ([], Inr 0)"
proof -
  have "unat pc < unat (load_entry p)"
    using lt by (simp add: word_less_nat_alt)
  then have wrap: "unat (pc - load_entry p) = unat pc + 2 ^ LENGTH('a) - unat (load_entry p)"
    by (simp add: unat_sub_if')
  have out: "\<not> in_window (load_entry p) pc"
    using al lt by (rule below_entry_outside)
  then have "skipLoad t p m pc = ([], Inr 0)"
    by (simp add: skipLoad_def)
  with wrap out show ?thesis by (simp add: in_window_def)
qed

theorem skipLoad_below_entry_witness:
  "aligned16 (load_entry layout64) \<and> (0x400fff :: 64 word) < load_entry layout64
   \<and> unat ((0x400fff :: 64 word) - load_entry layout64) = 2 ^ 64 - 1
   \<and> skipLoad x86_64_linux layout64 text_x86_64 0x400fff = ([], Inr 0)"
proof -
  have al: "aligned16 (load_entry layout64)"
    by (simp add: aligned16_def layout64_def)
  have lt: "(0x400fff :: 64 word) < load_entry layout64"
    by (simp add: layout64_def)
  have "unat (0x400fff :: 64 word) + 2 ^ LENGTH(64) - unat (load_entry layout64) = 2 ^ 64 - 1"
    by (simp add: layout64_def)
  with skipLoad_below_entry [OF al lt, of x86_64_linux text_x86_64] al lt
  show ?thesis by simp
qed

text \<open>
  C3. For every \<open>pc\<close> outside the windows of all three probe functions, that is not among
  the 16 bytes that start at any of the three entry addresses, \<^verbatim>\<open>skipLoad(pc)\<close>
  returns 0 and reads no memory.
\<close>

theorem skipLoad_outside_windows:
  assumes "probes_ok p"
    and "\<not> within16 (load_entry p) pc"
    and "\<not> within16 (load32_entry p) pc"
    and "\<not> within16 (loadPtr_entry p) pc"
  shows "skipLoad t p m pc = ([], Inr 0)"
proof -
  have "aligned16 (load_entry p)"
    using assms(1) by (simp add: probes_ok_def)
  then have "\<not> in_window (load_entry p) pc"
    using assms(2) by (rule outside_within16)
  then show ?thesis by (simp add: skipLoad_def)
qed

theorem skipLoad_outside_windows_witness:
  "probes_ok layout64
   \<and> \<not> within16 (load_entry layout64) 0x401030
   \<and> \<not> within16 (load32_entry layout64) 0x401030
   \<and> \<not> within16 (loadPtr_entry layout64) 0x401030
   \<and> skipLoad x86_64_linux layout64 text_x86_64 0x401030 = ([], Inr 0)"
proof -
  have ok: "probes_ok layout64"
    by (simp add: probes_ok_def aligned16_def layout64_def)
  have o1: "\<not> within16 (load_entry layout64) 0x401030"
    and o2: "\<not> within16 (load32_entry layout64) 0x401030"
    and o3: "\<not> within16 (loadPtr_entry layout64) 0x401030"
    by (simp_all add: within16_def layout64_def)
  from skipLoad_outside_windows [OF ok o1 o2 o3, of x86_64_linux text_x86_64] ok o1 o2 o3
  show ?thesis by simp
qed

section \<open>skipLoadArg\<close>

text \<open>
  C5. \<^verbatim>\<open>skipLoadArg(pc)\<close> is 4, which is not zero, exactly when the target is aarch64 and
  \<open>pc\<close> is among the 16 bytes that start at the entry of \<^verbatim>\<open>load32\<close> or of
  \<^verbatim>\<open>loadPtr\<close>; on any other target and for any other \<open>pc\<close> it is 0.
\<close>

theorem skipLoadArg_cases:
  fixes p :: "'a::len word probes"
  assumes w: "5 \<le> LENGTH('a)" and ok: "probes_ok p"
  shows "skipLoadArg t p pc =
           (if arch t = AARCH64 \<and> (within16 (load32_entry p) pc \<or> within16 (loadPtr_entry p) pc)
            then 4 else 0)
         \<and> (4 :: 'a word) \<noteq> 0"
proof -
  have "aligned16 (load32_entry p)" and "aligned16 (loadPtr_entry p)"
    using ok by (simp_all add: probes_ok_def)
  then have "in_window (load32_entry p) pc = within16 (load32_entry p) pc"
    and "in_window (loadPtr_entry p) pc = within16 (loadPtr_entry p) pc"
    using w by (simp_all add: in_window_within16)
  then have "skipLoadArg t p pc =
      (if arch t = AARCH64 \<and> (within16 (load32_entry p) pc \<or> within16 (loadPtr_entry p) pc)
       then 4 else 0)"
    by (simp add: skipLoadArg_def)
  moreover have "unat (4 :: 'a word) = 4"
    using sixteen_fits [OF w] by (simp add: take_bit_nat_eq_self)
  then have "(4 :: 'a word) \<noteq> 0"
    by (metis unat_0_iff zero_neq_numeral)
  ultimately show ?thesis by simp
qed

theorem skipLoadArg_cases_witness:
  "5 \<le> LENGTH(64) \<and> probes_ok layout64
   \<and> skipLoadArg aarch64_linux layout64 0x401014 = 4
   \<and> skipLoadArg aarch64_linux layout64 0x40102f = 4
   \<and> skipLoadArg aarch64_linux layout64 0x401004 = 0
   \<and> skipLoadArg x86_64_linux layout64 0x401014 = 0"
proof -
  have w: "5 \<le> LENGTH(64)" by simp
  have ok: "probes_ok layout64"
    by (simp add: probes_ok_def aligned16_def layout64_def)
  from skipLoadArg_cases [OF w ok, where t = aarch64_linux and pc = "0x401014"]
    skipLoadArg_cases [OF w ok, where t = aarch64_linux and pc = "0x40102f"]
    skipLoadArg_cases [OF w ok, where t = aarch64_linux and pc = "0x401004"]
    skipLoadArg_cases [OF w ok, where t = x86_64_linux and pc = "0x401014"] ok
  show ?thesis
    by (simp add: within16_def layout64_def aarch64_linux_def x86_64_linux_def)
qed

section \<open>The last Java pc on the stack\<close>

text \<open>
  C6. On little-endian PPC64 \<^verbatim>\<open>lastJavaPCFromStack\<close> returns \<^verbatim>\<open>NULL\<close> for every pair of
  arguments and reads no memory.
\<close>

theorem lastJavaPCFromStack_ppc64le:
  "arch t = PPC64 \<Longrightarrow> byte_order t = LittleEndian \<Longrightarrow>
   lastJavaPCFromStack t m lastJavaSP topSP = ([], Inr 0)"
  by (simp add: lastJavaPCFromStack_def)

theorem lastJavaPCFromStack_ppc64le_witness:
  "arch ppc64le_linux = PPC64 \<and> byte_order ppc64le_linux = LittleEndian
   \<and> lastJavaPCFromStack ppc64le_linux text_x86_64 0x401008 0x401020 = ([], Inr 0)"
proof -
  have a: "arch ppc64le_linux = PPC64" and b: "byte_order ppc64le_linux = LittleEndian"
    by (simp_all add: ppc64le_linux_def)
  from lastJavaPCFromStack_ppc64le [OF a b, of text_x86_64 "0x401008" "0x401020"] a b
  show ?thesis by simp
qed

text \<open>
  C9. On every target other than aarch64 and little-endian PPC64,
  \<^verbatim>\<open>lastJavaPCFromStack\<close> reads the pointer-sized slot just below \<open>lastJavaSP\<close>, and only
  that, when \<open>lastJavaSP < topSP\<close>; when \<open>lastJavaSP \<ge> topSP\<close> it reads nothing and returns
  \<^verbatim>\<open>NULL\<close>.
\<close>

theorem lastJavaPCFromStack_guarded:
  assumes "arch t \<noteq> AARCH64"
    and "\<not> (arch t = PPC64 \<and> byte_order t = LittleEndian)"
  shows "fst (lastJavaPCFromStack t m lastJavaSP topSP) =
           (if lastJavaSP < topSP
            then [(lastJavaSP - of_nat (sizeof_ptr lastJavaSP), sizeof_ptr lastJavaSP)] else [])
         \<and> (lastJavaSP < topSP \<longrightarrow>
              lastJavaPCFromStack t m lastJavaSP topSP =
                deref t m (lastJavaSP - of_nat (sizeof_ptr lastJavaSP)) (sizeof_ptr lastJavaSP))
         \<and> (topSP \<le> lastJavaSP \<longrightarrow>
              lastJavaPCFromStack t m lastJavaSP topSP = ([], Inr 0))"
  using assms by (auto simp: lastJavaPCFromStack_def deref_def slot_below_def)

theorem lastJavaPCFromStack_guarded_witness:
  "arch i386_linux \<noteq> AARCH64
   \<and> \<not> (arch i386_linux = PPC64 \<and> byte_order i386_linux = LittleEndian)
   \<and> lastJavaPCFromStack i386_linux stack32 0x7ffd000c 0x7ffd0010
       = ([(0x7ffd0008, 4)], Inr 0x12345678)
   \<and> lastJavaPCFromStack i386_linux stack32 0x7ffd0010 0x7ffd0010 = ([], Inr 0)"
proof -
  have a: "arch i386_linux \<noteq> AARCH64"
    and b: "\<not> (arch i386_linux = PPC64 \<and> byte_order i386_linux = LittleEndian)"
    by (simp_all add: i386_linux_def)
  have lt: "(0x7ffd000c :: 32 word) < 0x7ffd0010" by simp
  have ge: "(0x7ffd0010 :: 32 word) \<le> 0x7ffd0010" by simp
  have s: "(0x7ffd000c :: 32 word) - of_nat (sizeof_ptr (0x7ffd000c :: 32 word)) = 0x7ffd0008"
    and n: "sizeof_ptr (0x7ffd000c :: 32 word) = 4"
    by (simp_all add: sizeof_ptr_def)
  have d: "deref i386_linux stack32 0x7ffd0008 4 = ([(0x7ffd0008, 4)], Inr (0x12345678 :: 32 word))"
    by (simp add: deref_def stack32_def read_bytes_numeral read_bytes_one i386_linux_def
        from_bytes_def word_rcat_def)
  from lastJavaPCFromStack_guarded [OF a b, of stack32 "0x7ffd000c" "0x7ffd0010"]
    lastJavaPCFromStack_guarded [OF a b, of stack32 "0x7ffd0010" "0x7ffd0010"]
    a b lt ge
  show ?thesis by (simp add: s n d)
qed

section \<open>The thread list\<close>

text \<open>
  C10. \<^verbatim>\<open>hasNext()\<close> is true exactly when \<^verbatim>\<open>index() < count()\<close>. A freshly constructed
  \<^verbatim>\<open>ThreadList\<close> has index 0 and count 0, so its \<^verbatim>\<open>hasNext()\<close> is false.
\<close>

theorem ThreadList_hasNext:
  "hasNext self = (index self < count self)
   \<and> index ThreadList_new = 0 \<and> count ThreadList_new = 0 \<and> \<not> hasNext ThreadList_new"
  by (simp add: hasNext_def index_def count_def ThreadList_new_def)

end
